theory Spec2Isabelle
  imports Complex_Main "HOL-Library.Signed_Division"
begin

section \<open>The Go runtime as the programs see it\<close>

text \<open>
  Both programs of the repository (\<^verbatim>\<open>src/main.go\<close> and the integration tests) use three
  facilities of the Go runtime: the process-global random generator (\<^verbatim>\<open>rand.Float32\<close>),
  blocking sleeps (\<^verbatim>\<open>time.Sleep\<close>) and the standard output. They are state, so the model
  passes them explicitly.

  \<^item> \<open>rand_src\<close> is the sequence of values that successive calls of \<^verbatim>\<open>rand.Float32()\<close>
    return and \<open>rand_pos\<close> counts the calls made so far. A finite \<^verbatim>\<open>float32\<close> is a
    rational number and \<^verbatim>\<open><\<close> on such values is the order of the rationals.
  \<^item> \<open>clock\<close> is the time slept so far, in nanoseconds (\<^verbatim>\<open>time.Duration\<close> counts
    nanoseconds in an \<^verbatim>\<open>int64\<close>; the programs only divide durations by a positive
    number, which cannot overflow).
  \<^item> \<open>stdout\<close> are the lines printed with \<^verbatim>\<open>fmt.Printf\<close>, oldest first.
\<close>

datatype out_line =
  Connected string            \<comment> \<open>\<^verbatim>\<open>"<check> Connected to %s\n"\<close>, the service's name\<close>
| Initializing string string  \<comment> \<open>\<^verbatim>\<open>"Initializing %s service (%s)...\n"\<close>, name and type\<close>

record runtime =
  rand_src :: "nat \<Rightarrow> rat"
  rand_pos :: nat
  clock :: int
  stdout :: "out_line list"

definition Float32 :: "runtime \<Rightarrow> rat \<times> runtime" where
  "Float32 w = (rand_src w (rand_pos w), w\<lparr>rand_pos := Suc (rand_pos w)\<rparr>)"

text \<open>
  The documented contract of \<^verbatim>\<open>rand.Float32\<close>: every value it returns lies in the
  half-open interval \<open>[0.0, 1.0)\<close>.
\<close>

definition float32_range :: "runtime \<Rightarrow> bool" where
  "float32_range w \<longleftrightarrow> (\<forall>n. 0 \<le> rand_src w n \<and> rand_src w n < 1)"

text \<open>\<^verbatim>\<open>time.Sleep(d)\<close> returns at once when \<open>d\<close> is zero or negative.\<close>

definition Sleep :: "int \<Rightarrow> runtime \<Rightarrow> runtime" where
  "Sleep d w = (if d \<le> 0 then w else w\<lparr>clock := clock w + d\<rparr>)"

definition Printf :: "out_line \<Rightarrow> runtime \<Rightarrow> runtime" where
  "Printf l w = w\<lparr>stdout := stdout w @ [l]\<rparr>"


section \<open>The simulated service (\<^verbatim>\<open>src/main.go\<close>)\<close>

text \<open>
  Every \<^verbatim>\<open>fmt.Errorf\<close> of the file is one constructor, its argument the string the
  format is filled with.
\<close>

datatype error =
  ConnectError string   \<comment> \<open>\<^verbatim>\<open>"failed to connect to %s"\<close>, the service's name\<close>
| PingError string      \<comment> \<open>\<^verbatim>\<open>"%s is not responding"\<close>, the service's name\<close>
| GetError string       \<comment> \<open>\<^verbatim>\<open>"failed to get data from %s"\<close>, the service's name\<close>
| KeyNotFound string    \<comment> \<open>\<^verbatim>\<open>"key %s not found"\<close>, the key\<close>
| PutError string       \<comment> \<open>\<^verbatim>\<open>"failed to put data to %s"\<close>, the service's name\<close>
| ListError string      \<comment> \<open>\<^verbatim>\<open>"failed to list keys from %s"\<close>, the service's name\<close>

record MockService =
  name :: string
  responseTime :: int
  failureRate :: rat
  data :: "string \<rightharpoonup> string"

definition NewMockService :: "string \<Rightarrow> int \<Rightarrow> rat \<Rightarrow> MockService" where
  "NewMockService n rt fr =
     \<lparr>name = n, responseTime = rt, failureRate = fr, data = Map.empty\<rparr>"

definition shouldFail :: "MockService \<Rightarrow> runtime \<Rightarrow> bool \<times> runtime" where
  "shouldFail m w = (let (x, w') = Float32 w in (x < failureRate m, w'))"

text \<open>
  The methods have a pointer receiver: each one takes the service and the runtime and
  returns its result with the service and the runtime as it leaves them. A returned
  \<^verbatim>\<open>error\<close> is \<open>Some e\<close>, \<^verbatim>\<open>nil\<close> is \<open>None\<close>; a method with a value and an error
  returns a sum.
\<close>

definition Connect :: "MockService \<Rightarrow> runtime \<Rightarrow> error option \<times> MockService \<times> runtime" where
  "Connect m w =
     (let w1 = Sleep (responseTime m) w;
          (fail, w2) = shouldFail m w1
      in if fail then (Some (ConnectError (name m)), m, w2)
         else (None, m, Printf (Connected (name m)) w2))"

definition Ping :: "MockService \<Rightarrow> runtime \<Rightarrow> error option \<times> MockService \<times> runtime" where
  "Ping m w =
     (let w1 = Sleep (responseTime m sdiv 2) w;
          (fail, w2) = shouldFail m w1
      in if fail then (Some (PingError (name m)), m, w2)
         else (None, m, w2))"

definition GetData :: "string \<Rightarrow> MockService \<Rightarrow> runtime \<Rightarrow> (error + string) \<times> MockService \<times> runtime" where
  "GetData key m w =
     (let w1 = Sleep (responseTime m) w;
          (fail, w2) = shouldFail m w1
      in if fail then (Inl (GetError (name m)), m, w2)
         else (case data m key of
                 Some val \<Rightarrow> (Inr val, m, w2)
               | None \<Rightarrow> (Inl (KeyNotFound key), m, w2)))"

definition PutData :: "string \<Rightarrow> string \<Rightarrow> MockService \<Rightarrow> runtime \<Rightarrow> error option \<times> MockService \<times> runtime" where
  "PutData key v m w =
     (let w1 = Sleep (responseTime m) w;
          (fail, w2) = shouldFail m w1
      in if fail then (Some (PutError (name m)), m, w2)
         else (None, m\<lparr>data := (data m)(key \<mapsto> v)\<rparr>, w2))"

text \<open>
  The loop of \<^verbatim>\<open>ListKeys\<close>, \<^verbatim>\<open>for k := range m.data { keys = append(keys, k) }\<close>. A
  range loop over a Go map visits every key of the map once, in an order the language
  leaves open and that may differ from one loop to the next. \<open>range_loop\<close> is the loop as
  a relation: \<open>remaining\<close> are the keys of the map not visited yet, \<open>keys\<close> is the slice
  built so far and \<open>out\<close> the slice when the loop is over. An iteration takes any key
  that is left and appends it; the loop ends when no key is left.
\<close>

inductive range_loop :: "'k set \<Rightarrow> 'k list \<Rightarrow> 'k list \<Rightarrow> bool" where
  range_done: "range_loop {} keys keys"
| range_step: "k \<in> remaining \<Longrightarrow> range_loop (remaining - {k}) (keys @ [k]) out \<Longrightarrow>
     range_loop remaining keys out"

text \<open>
  The service and the runtime after \<^verbatim>\<open>ListKeys\<close> do not depend on the order of the visit;
  the slice it returns does. The model returns, in place of one slice, the set of the
  slices the loop can end with, started on the keys of \<^verbatim>\<open>m.data\<close> with the empty slice
  (\<^verbatim>\<open>make([]string, 0, len(m.data))\<close>): the call returns one of them.
\<close>

definition ListKeys :: "MockService \<Rightarrow> runtime \<Rightarrow> (error + string list set) \<times> MockService \<times> runtime" where
  "ListKeys m w =
     (let w1 = Sleep (responseTime m) w;
          (fail, w2) = shouldFail m w1
      in if fail then (Inl (ListError (name m)), m, w2)
         else (Inr {keys. range_loop (dom (data m)) [] keys}, m, w2))"


subsection \<open>Service configuration and the labels of \<^verbatim>\<open>main\<close>\<close>

text \<open>
  \<^verbatim>\<open>os.Getenv\<close> returns the empty string for a variable that is not set. The environment
  is a map from variable names to values.
\<close>

definition Getenv :: "(string \<rightharpoonup> string) \<Rightarrow> string \<Rightarrow> string" where
  "Getenv env k = (case env k of Some v \<Rightarrow> v | None \<Rightarrow> [])"

definition Millisecond :: int where
  "Millisecond = 1000000"

record ServiceConfig =
  Name :: string
  Type :: string
  ResponseTime :: int
  FailureRate :: rat

text \<open>
  The failure rates of the source are the decimal constants \<^verbatim>\<open>0.01\<close> to \<^verbatim>\<open>0.05\<close>, typed
  \<^verbatim>\<open>float32\<close>: Go stores the nearest value with a mantissa of 24 bits, which is not the
  decimal fraction itself. The constants below are those values, as mantissa over a
  power of two.
\<close>

definition float32_0_01 :: rat where
  "float32_0_01 = 10737418 / 2 ^ 30"

definition float32_0_02 :: rat where
  "float32_0_02 = 10737418 / 2 ^ 29"

definition float32_0_03 :: rat where
  "float32_0_03 = 16106127 / 2 ^ 29"

definition float32_0_04 :: rat where
  "float32_0_04 = 10737418 / 2 ^ 28"

definition float32_0_05 :: rat where
  "float32_0_05 = 13421773 / 2 ^ 28"

definition LoadServiceConfig :: "(string \<rightharpoonup> string) \<Rightarrow> ServiceConfig list" where
  "LoadServiceConfig env =
     [\<lparr>Name = ''S3-like Storage'', Type = Getenv env ''STORAGE_TYPE'',
        ResponseTime = 100 * Millisecond, FailureRate = float32_0_01\<rparr>,
      \<lparr>Name = ''Database'', Type = Getenv env ''DB_TYPE'',
        ResponseTime = 50 * Millisecond, FailureRate = float32_0_02\<rparr>,
      \<lparr>Name = ''External API'', Type = Getenv env ''API_TYPE'',
        ResponseTime = 200 * Millisecond, FailureRate = float32_0_05\<rparr>]"

text \<open>
  The first loop of \<^verbatim>\<open>main\<close> (``Initialize services''): for every configuration it
  replaces an empty type by \<^verbatim>\<open>"mock"\<close> in its copy of the entry, announces the service
  with that type and constructs the mock.
\<close>

fun init_services :: "ServiceConfig list \<Rightarrow> runtime \<Rightarrow> MockService list \<times> runtime" where
  "init_services [] w = ([], w)"
| "init_services (cfg # cfgs) w =
     (let cfg1 = (if Type cfg = [] then cfg\<lparr>Type := ''mock''\<rparr> else cfg);
          w1 = Printf (Initializing (Name cfg1) (Type cfg1)) w;
          svc = NewMockService (Name cfg1) (ResponseTime cfg1) (FailureRate cfg1);
          (svcs, w2) = init_services cfgs w1
      in (svc # svcs, w2))"

definition main_init :: "(string \<rightharpoonup> string) \<Rightarrow> runtime \<Rightarrow> MockService list \<times> runtime" where
  "main_init env w = init_services (LoadServiceConfig env) w"


section \<open>The integration tests (\<^verbatim>\<open>tests/integration_test.go\<close>)\<close>

text \<open>
  One constructor for every format string the tests log with, its arguments the values
  the format is filled with.
\<close>

datatype log_line =
  Starting string              \<comment> \<open>\<^verbatim>\<open>"Starting %s integration test"\<close>\<close>
| StepBegin nat nat string     \<comment> \<open>\<^verbatim>\<open>"  [%d/%d] %s..."\<close>\<close>
| StepFailed string            \<comment> \<open>\<^verbatim>\<open>"  <cross> %s failed: simulated failure"\<close>\<close>
| StepCompleted string         \<comment> \<open>\<^verbatim>\<open>"  <check> %s completed"\<close>\<close>
| TestPassed string            \<comment> \<open>\<^verbatim>\<open>"<check> %s integration test passed"\<close>\<close>
| SkipMessage string           \<comment> \<open>the argument of \<^verbatim>\<open>t.Skip\<close>\<close>
| RunningStorage string        \<comment> \<open>\<^verbatim>\<open>"Running storage integration tests (type: %s)"\<close>\<close>
| RunningDatabase string       \<comment> \<open>\<^verbatim>\<open>"Running database integration tests (type: %s)"\<close>\<close>
| RunningAPI string            \<comment> \<open>\<^verbatim>\<open>"Running API integration tests (type: %s)"\<close>\<close>
| FullSuite                    \<comment> \<open>\<^verbatim>\<open>"No specific integration tests requested, running full suite"\<close>\<close>
| ConfigHeader                 \<comment> \<open>\<^verbatim>\<open>"Integration Test Configuration:"\<close>\<close>
| ConfigStorage bool           \<comment> \<open>\<^verbatim>\<open>"  Storage Tests: %v"\<close>\<close>
| ConfigDatabase bool          \<comment> \<open>\<^verbatim>\<open>"  Database Tests: %v"\<close>\<close>
| ConfigAPI bool               \<comment> \<open>\<^verbatim>\<open>"  API Tests: %v"\<close>\<close>
| ConfigFailures bool          \<comment> \<open>\<^verbatim>\<open>"  Simulate Failures: %v"\<close>\<close>
| ConfigVerbose bool           \<comment> \<open>\<^verbatim>\<open>"  Verbose: %v"\<close>\<close>

text \<open>
  A \<^verbatim>\<open>testing.T\<close>: the test's full name, what it logged, and whether it was marked as
  failed or skipped.
\<close>

record T =
  tname :: string
  tlog :: "log_line list"
  failed :: bool
  skipped :: bool

definition new_T :: "string \<Rightarrow> T" where
  "new_T n = \<lparr>tname = n, tlog = [], failed = False, skipped = False\<rparr>"

definition Logf :: "log_line \<Rightarrow> T \<Rightarrow> T" where
  "Logf l t = t\<lparr>tlog := tlog t @ [l]\<rparr>"

definition Errorf :: "log_line \<Rightarrow> T \<Rightarrow> T" where
  "Errorf l t = (Logf l t)\<lparr>failed := True\<rparr>"

text \<open>\<^verbatim>\<open>t.Skip\<close> logs, marks the test as skipped and ends it: the caller returns.\<close>

definition Skip :: "string \<Rightarrow> T \<Rightarrow> T" where
  "Skip msg t = (Logf (SkipMessage msg) t)\<lparr>skipped := True\<rparr>"

text \<open>
  The state of the test process: the five flag variables of the package (pointers set
  from the command line, which \<^verbatim>\<open>TestIntegrationSuite\<close> writes through), the environment,
  the runtime, and the tests and subtests that have finished, oldest first.
\<close>

record proc =
  runStorageTests :: bool
  runDBTests :: bool
  runAPITests :: bool
  simulateFailure :: bool
  verbose :: bool
  environ :: "string \<rightharpoonup> string"
  rt :: runtime
  finished :: "T list"

text \<open>
  The scenario of a test case. Its fields \<^verbatim>\<open>name\<close> and \<^verbatim>\<open>failureRate\<close> are \<open>test_name\<close>
  and \<open>test_failureRate\<close> here, the plain names being those of the service's fields.
\<close>

record MockIntegrationTest =
  test_name :: string
  duration :: int
  test_failureRate :: rat
  operations :: "string list"

definition NewMockIntegrationTest :: "string \<Rightarrow> int \<Rightarrow> rat \<Rightarrow> MockIntegrationTest" where
  "NewMockIntegrationTest n d fr =
     \<lparr>test_name = n, duration = d, test_failureRate = fr,
      operations =
        [''Connecting to service'',
         ''Authenticating'',
         ''Creating test data'',
         ''Verifying data integrity'',
         ''Performing read operations'',
         ''Performing write operations'',
         ''Testing error handling'',
         ''Cleaning up test data'']\<rparr>"

text \<open>
  The loop of \<^verbatim>\<open>Run\<close> over the operations still to do, \<open>i\<close> the index of the first of
  them. The Boolean result says whether the loop left the function through its
  \<^verbatim>\<open>return\<close>. The random draw is made only when \<^verbatim>\<open>*simulateFailure\<close> holds (\<^verbatim>\<open>&&\<close> does
  not evaluate its right operand otherwise).
\<close>

fun run_ops :: "MockIntegrationTest \<Rightarrow> nat \<Rightarrow> string list \<Rightarrow> T \<Rightarrow> proc \<Rightarrow> bool \<times> T \<times> proc" where
  "run_ops m i [] t p = (False, t, p)"
| "run_ops m i (opn # ops) t p =
     (let t1 = (if verbose p then Logf (StepBegin (i + 1) (length (operations m)) opn) t else t);
          p1 = p\<lparr>rt := Sleep (duration m sdiv int (length (operations m))) (rt p)\<rparr>;
          (hit, p2) =
            (if simulateFailure p1
             then (let (x, w) = Float32 (rt p1) in (x < test_failureRate m, p1\<lparr>rt := w\<rparr>))
             else (False, p1))
      in if hit then (True, Errorf (StepFailed opn) t1, p2)
         else run_ops m (i + 1) ops
                (if verbose p2 then Logf (StepCompleted opn) t1 else t1) p2)"

definition Run :: "MockIntegrationTest \<Rightarrow> T \<Rightarrow> proc \<Rightarrow> T \<times> proc" where
  "Run m t p =
     (let t0 = Logf (Starting (test_name m)) t;
          (returned, t1, p1) = run_ops m 0 (operations m) t0 p
      in if returned then (t1, p1)
         else (Logf (TestPassed (test_name m)) t1, p1))"


subsection \<open>Subtests and the scenarios\<close>

text \<open>
  \<^verbatim>\<open>t.Run(name, f)\<close> runs \<open>f\<close> on a fresh \<^verbatim>\<open>testing.T\<close> named after its parent; a
  failed subtest marks the parent as failed, and the parent goes on with its next
  statement either way. \<open>run_subtests\<close> is the loop over the table of a category.
\<close>

definition t_Run :: "string \<Rightarrow> (T \<Rightarrow> proc \<Rightarrow> T \<times> proc) \<Rightarrow> T \<Rightarrow> proc \<Rightarrow> T \<times> proc" where
  "t_Run n f t p =
     (let (s, p1) = f (new_T (tname t @ ''/'' @ n)) p
      in (t\<lparr>failed := failed t \<or> failed s\<rparr>, p1\<lparr>finished := finished p1 @ [s]\<rparr>))"

fun run_subtests :: "(string \<times> (T \<Rightarrow> proc \<Rightarrow> T \<times> proc)) list \<Rightarrow> T \<Rightarrow> proc \<Rightarrow> T \<times> proc" where
  "run_subtests [] t p = (t, p)"
| "run_subtests ((n, f) # tests) t p =
     (let (t1, p1) = t_Run n f t p in run_subtests tests t1 p1)"

definition testStorageUpload :: "T \<Rightarrow> proc \<Rightarrow> T \<times> proc" where
  "testStorageUpload t p =
     Run ((NewMockIntegrationTest ''Storage Upload'' (500 * Millisecond) float32_0_05)
        \<lparr>operations :=
        [''Connecting to storage service'',
         ''Generating test file'',
         ''Uploading file'',
         ''Verifying upload'',
         ''Checking file integrity'']\<rparr>) t p"

definition testStorageDownload :: "T \<Rightarrow> proc \<Rightarrow> T \<times> proc" where
  "testStorageDownload t p =
     Run ((NewMockIntegrationTest ''Storage Download'' (400 * Millisecond) float32_0_03)
        \<lparr>operations :=
        [''Connecting to storage service'',
         ''Locating file'',
         ''Downloading file'',
         ''Verifying download'',
         ''Checking file integrity'']\<rparr>) t p"

definition testStorageList :: "T \<Rightarrow> proc \<Rightarrow> T \<times> proc" where
  "testStorageList t p =
     Run ((NewMockIntegrationTest ''Storage List'' (300 * Millisecond) float32_0_02)
        \<lparr>operations :=
        [''Connecting to storage service'',
         ''Listing objects'',
         ''Parsing metadata'',
         ''Sorting results'']\<rparr>) t p"

definition testStorageDelete :: "T \<Rightarrow> proc \<Rightarrow> T \<times> proc" where
  "testStorageDelete t p =
     Run ((NewMockIntegrationTest ''Storage Delete'' (200 * Millisecond) float32_0_01)
        \<lparr>operations :=
        [''Connecting to storage service'',
         ''Locating file'',
         ''Deleting file'',
         ''Verifying deletion'']\<rparr>) t p"

definition testStorageMetadata :: "T \<Rightarrow> proc \<Rightarrow> T \<times> proc" where
  "testStorageMetadata t p =
     Run ((NewMockIntegrationTest ''Storage Metadata'' (250 * Millisecond) float32_0_02)
        \<lparr>operations :=
        [''Connecting to storage service'',
         ''Retrieving metadata'',
         ''Updating metadata'',
         ''Verifying changes'']\<rparr>) t p"

definition testDBConnection :: "T \<Rightarrow> proc \<Rightarrow> T \<times> proc" where
  "testDBConnection t p =
     Run ((NewMockIntegrationTest ''Database Connection'' (300 * Millisecond) float32_0_02)
        \<lparr>operations :=
        [''Establishing connection'',
         ''Authenticating'',
         ''Testing connection'',
         ''Checking database version'']\<rparr>) t p"

definition testDBMigration :: "T \<Rightarrow> proc \<Rightarrow> T \<times> proc" where
  "testDBMigration t p =
     Run ((NewMockIntegrationTest ''Database Migration'' (600 * Millisecond) float32_0_03)
        \<lparr>operations :=
        [''Loading migration files'',
         ''Checking current version'',
         ''Applying migrations'',
         ''Verifying schema'']\<rparr>) t p"

definition testDBCRUD :: "T \<Rightarrow> proc \<Rightarrow> T \<times> proc" where
  "testDBCRUD t p =
     Run ((NewMockIntegrationTest ''Database CRUD'' (800 * Millisecond) float32_0_04)
        \<lparr>operations :=
        [''Creating records'',
         ''Reading records'',
         ''Updating records'',
         ''Deleting records'',
         ''Verifying operations'']\<rparr>) t p"

definition testDBTransaction :: "T \<Rightarrow> proc \<Rightarrow> T \<times> proc" where
  "testDBTransaction t p =
     Run ((NewMockIntegrationTest ''Database Transaction'' (400 * Millisecond) float32_0_02)
        \<lparr>operations :=
        [''Beginning transaction'',
         ''Executing operations'',
         ''Testing rollback'',
         ''Committing transaction'']\<rparr>) t p"

definition testDBPerformance :: "T \<Rightarrow> proc \<Rightarrow> T \<times> proc" where
  "testDBPerformance t p =
     Run ((NewMockIntegrationTest ''Database Performance'' (1000 * Millisecond) float32_0_05)
        \<lparr>operations :=
        [''Running query benchmarks'',
         ''Testing connection pool'',
         ''Measuring latency'',
         ''Analyzing query plans'',
         ''Generating performance report'']\<rparr>) t p"

definition testAPIAuth :: "T \<Rightarrow> proc \<Rightarrow> T \<times> proc" where
  "testAPIAuth t p =
     Run ((NewMockIntegrationTest ''API Authentication'' (400 * Millisecond) float32_0_03)
        \<lparr>operations :=
        [''Requesting auth token'',
         ''Validating token'',
         ''Testing token refresh'',
         ''Testing token expiry'']\<rparr>) t p"

definition testAPIGet :: "T \<Rightarrow> proc \<Rightarrow> T \<times> proc" where
  "testAPIGet t p =
     Run ((NewMockIntegrationTest ''API GET'' (300 * Millisecond) float32_0_02)
        \<lparr>operations :=
        [''Making GET request'',
         ''Parsing response'',
         ''Validating data'']\<rparr>) t p"

definition testAPIPost :: "T \<Rightarrow> proc \<Rightarrow> T \<times> proc" where
  "testAPIPost t p =
     Run ((NewMockIntegrationTest ''API POST'' (400 * Millisecond) float32_0_03)
        \<lparr>operations :=
        [''Preparing payload'',
         ''Making POST request'',
         ''Validating response'',
         ''Verifying creation'']\<rparr>) t p"

definition testAPIPut :: "T \<Rightarrow> proc \<Rightarrow> T \<times> proc" where
  "testAPIPut t p =
     Run ((NewMockIntegrationTest ''API PUT'' (350 * Millisecond) float32_0_02)
        \<lparr>operations :=
        [''Preparing update'',
         ''Making PUT request'',
         ''Validating response'',
         ''Verifying update'']\<rparr>) t p"

definition testAPIDelete :: "T \<Rightarrow> proc \<Rightarrow> T \<times> proc" where
  "testAPIDelete t p =
     Run ((NewMockIntegrationTest ''API DELETE'' (300 * Millisecond) float32_0_02)
        \<lparr>operations :=
        [''Making DELETE request'',
         ''Validating response'',
         ''Verifying deletion'']\<rparr>) t p"

definition testAPIRateLimit :: "T \<Rightarrow> proc \<Rightarrow> T \<times> proc" where
  "testAPIRateLimit t p =
     Run ((NewMockIntegrationTest ''API Rate Limiting'' (600 * Millisecond) float32_0_04)
        \<lparr>operations :=
        [''Testing rate limits'',
         ''Checking headers'',
         ''Testing backoff'',
         ''Verifying throttling'']\<rparr>) t p"


subsection \<open>The four top-level tests\<close>

definition TestStorageIntegration :: "T \<Rightarrow> proc \<Rightarrow> T \<times> proc" where
  "TestStorageIntegration t p =
     (if \<not> runStorageTests p
      then (Skip ''Storage tests not enabled (use -storage flag)'' t, p)
      else
        let storageType = Getenv (environ p) ''STORAGE_TYPE'';
            storageType = (if storageType = [] then ''mock-s3'' else storageType);
            t1 = Logf (RunningStorage storageType) t
        in run_subtests
             [(''Upload'', testStorageUpload),
              (''Download'', testStorageDownload),
              (''List'', testStorageList),
              (''Delete'', testStorageDelete),
              (''Metadata'', testStorageMetadata)] t1 p)"

definition TestDatabaseIntegration :: "T \<Rightarrow> proc \<Rightarrow> T \<times> proc" where
  "TestDatabaseIntegration t p =
     (if \<not> runDBTests p
      then (Skip ''Database tests not enabled (use -database flag)'' t, p)
      else
        let dbType = Getenv (environ p) ''DB_TYPE'';
            dbType = (if dbType = [] then ''mock-postgres'' else dbType);
            t1 = Logf (RunningDatabase dbType) t
        in run_subtests
             [(''Connection'', testDBConnection),
              (''Migration'', testDBMigration),
              (''CRUD'', testDBCRUD),
              (''Transaction'', testDBTransaction),
              (''Performance'', testDBPerformance)] t1 p)"

definition TestAPIIntegration :: "T \<Rightarrow> proc \<Rightarrow> T \<times> proc" where
  "TestAPIIntegration t p =
     (if \<not> runAPITests p
      then (Skip ''API tests not enabled (use -api flag)'' t, p)
      else
        let apiType = Getenv (environ p) ''API_TYPE'';
            apiType = (if apiType = [] then ''mock-rest'' else apiType);
            t1 = Logf (RunningAPI apiType) t
        in run_subtests
             [(''Authentication'', testAPIAuth),
              (''GET'', testAPIGet),
              (''POST'', testAPIPost),
              (''PUT'', testAPIPut),
              (''DELETE'', testAPIDelete),
              (''RateLimit'', testAPIRateLimit)] t1 p)"

definition TestIntegrationSuite :: "T \<Rightarrow> proc \<Rightarrow> T \<times> proc" where
  "TestIntegrationSuite t p =
     (let (t1, p1) =
            (if \<not> runStorageTests p \<and> \<not> runDBTests p \<and> \<not> runAPITests p
             then (Logf FullSuite t,
                   p\<lparr>runStorageTests := True, runDBTests := True, runAPITests := True\<rparr>)
             else (t, p));
          t2 = Logf ConfigHeader t1;
          t3 = Logf (ConfigStorage (runStorageTests p1)) t2;
          t4 = Logf (ConfigDatabase (runDBTests p1)) t3;
          t5 = Logf (ConfigAPI (runAPITests p1)) t4;
          t6 = Logf (ConfigFailures (simulateFailure p1)) t5;
          t7 = Logf (ConfigVerbose (verbose p1)) t6
      in (t7, p1))"

subsection \<open>A run of the test binary\<close>

text \<open>
  The \<^verbatim>\<open>testing\<close> package runs the top-level tests of a file one after another, in the
  order in which the file declares them, all in one process (so they share the flag
  variables). \<open>declared_tests\<close> is that order for \<^verbatim>\<open>integration_test.go\<close>. \<open>go_test\<close>
  is a run of the binary with the five flags as the command line sets them.
\<close>

definition declared_tests :: "(string \<times> (T \<Rightarrow> proc \<Rightarrow> T \<times> proc)) list" where
  "declared_tests =
     [(''TestStorageIntegration'', TestStorageIntegration),
      (''TestDatabaseIntegration'', TestDatabaseIntegration),
      (''TestAPIIntegration'', TestAPIIntegration),
      (''TestIntegrationSuite'', TestIntegrationSuite)]"

fun run_tests :: "(string \<times> (T \<Rightarrow> proc \<Rightarrow> T \<times> proc)) list \<Rightarrow> proc \<Rightarrow> proc" where
  "run_tests [] p = p"
| "run_tests ((n, f) # tests) p =
     (let (t, p1) = f (new_T n) p
      in run_tests tests (p1\<lparr>finished := finished p1 @ [t]\<rparr>))"

definition go_test :: "bool \<Rightarrow> bool \<Rightarrow> bool \<Rightarrow> bool \<Rightarrow> bool \<Rightarrow> (string \<rightharpoonup> string) \<Rightarrow> runtime \<Rightarrow> proc" where
  "go_test storage database api fail v env w =
     run_tests declared_tests
       \<lparr>runStorageTests = storage, runDBTests = database, runAPITests = api,
        simulateFailure = fail, verbose = v, environ = env, rt = w, finished = []\<rparr>"

text \<open>
  The scenarios a run executed are those whose start line (the first statement of
  \<^verbatim>\<open>Run\<close>) is in the log of a finished test, in the order of the log.
\<close>

fun started_line :: "log_line \<Rightarrow> string list" where
  "started_line (Starting n) = [n]"
| "started_line _ = []"

definition started_in :: "T \<Rightarrow> string list" where
  "started_in t = concat (map started_line (tlog t))"

definition started :: "proc \<Rightarrow> string list" where
  "started p = concat (map started_in (finished p))"


section \<open>Concrete inputs and expected logs\<close>

text \<open>
  Inputs at which the theorems below are instantiated: a generator whose every draw is
  \<open>1/2\<close>, and a service that holds one entry.
\<close>

definition half_draws :: runtime where
  "half_draws = \<lparr>rand_src = (\<lambda>n. 1 / 2), rand_pos = 0, clock = 0, stdout = []\<rparr>"

definition one_entry :: "rat \<Rightarrow> MockService" where
  "one_entry fr =
     \<lparr>name = ''Database'', responseTime = 50 * Millisecond, failureRate = fr,
      data = [''user:1'' \<mapsto> ''alice'']\<rparr>"

definition test_proc :: "bool \<Rightarrow> bool \<Rightarrow> proc" where
  "test_proc fail v =
     \<lparr>runStorageTests = True, runDBTests = False, runAPITests = False,
      simulateFailure = fail, verbose = v, environ = Map.empty, rt = half_draws,
      finished = []\<rparr>"

definition upload_scenario :: "rat \<Rightarrow> MockIntegrationTest" where
  "upload_scenario fr =
     (NewMockIntegrationTest ''Storage Upload'' (500 * Millisecond) fr)
        \<lparr>operations :=
        [''Connecting to storage service'',
         ''Generating test file'',
         ''Uploading file'',
         ''Verifying upload'',
         ''Checking file integrity'']\<rparr>"

text \<open>
  What a verbose run logs for the steps \<open>ops\<close> when each of them completes, \<open>i\<close> the index
  of the first of them and \<open>n\<close> the number of steps of the scenario.
\<close>

fun completed_lines :: "nat \<Rightarrow> nat \<Rightarrow> string list \<Rightarrow> log_line list" where
  "completed_lines n i [] = []"
| "completed_lines n i (opn # ops) =
     StepBegin (i + 1) n opn # StepCompleted opn # completed_lines n (i + 1) ops"


text \<open>
  \<open>starts f nm\<close>: whatever the test and the process state, running \<open>f\<close> adds exactly the
  start line of the scenario \<open>nm\<close> to the test's log and leaves the category flags, the
  environment and the list of finished tests as they are.
\<close>

definition starts :: "(T \<Rightarrow> proc \<Rightarrow> T \<times> proc) \<Rightarrow> string \<Rightarrow> bool" where
  "starts f nm \<longleftrightarrow>
     (\<forall>t p. started_in (fst (f t p)) = started_in t @ [nm] \<and>
            runStorageTests (snd (f t p)) = runStorageTests p \<and>
            runDBTests (snd (f t p)) = runDBTests p \<and>
            runAPITests (snd (f t p)) = runAPITests p \<and>
            environ (snd (f t p)) = environ p \<and>
            finished (snd (f t p)) = finished p)"

text \<open>The scenario names of the three categories, in the order of their tables.\<close>

definition storage_names :: "string list" where
  "storage_names =
     [''Storage Upload'', ''Storage Download'', ''Storage List'', ''Storage Delete'',
      ''Storage Metadata'']"

definition database_names :: "string list" where
  "database_names =
     [''Database Connection'', ''Database Migration'', ''Database CRUD'',
      ''Database Transaction'', ''Database Performance'']"

definition api_names :: "string list" where
  "api_names =
     [''API Authentication'', ''API GET'', ''API POST'', ''API PUT'', ''API DELETE'',
      ''API Rate Limiting'']"


section \<open>Basic facts\<close>

lemma shouldFail_eq:
  "shouldFail m w = (rand_src w (rand_pos w) < failureRate m, w\<lparr>rand_pos := Suc (rand_pos w)\<rparr>)"
  by (simp add: shouldFail_def Float32_def)

lemma Sleep_fields [simp]:
  "rand_src (Sleep d w) = rand_src w"
  "rand_pos (Sleep d w) = rand_pos w"
  "stdout (Sleep d w) = stdout w"
  by (simp_all add: Sleep_def)

lemma Sleep_max: "Sleep d w = w\<lparr>clock := clock w + max 0 d\<rparr>"
  by (simp add: Sleep_def max_def)

lemma float32_range_Sleep [simp]: "float32_range (Sleep d w) = float32_range w"
  by (simp add: float32_range_def)

lemma draw_not_negative: "float32_range w \<Longrightarrow> \<not> rand_src w n < 0"
  by (simp add: float32_range_def not_less)

lemma draw_below_one: "float32_range w \<Longrightarrow> rand_src w n < 1"
  by (simp add: float32_range_def)

lemma float32_range_half_draws: "float32_range half_draws"
  by (simp add: float32_range_def half_draws_def)

text \<open>
  The constants are the \<^verbatim>\<open>float32\<close> values nearest to the decimal fractions: a mantissa
  of 24 bits, at most half a unit in the last place away.
\<close>

lemma float32_constants_nearest:
  "\<bar>float32_0_01 - 1 / 100\<bar> < 1 / 2 ^ 31"
  "\<bar>float32_0_02 - 2 / 100\<bar> < 1 / 2 ^ 30"
  "\<bar>float32_0_03 - 3 / 100\<bar> < 1 / 2 ^ 30"
  "\<bar>float32_0_04 - 4 / 100\<bar> < 1 / 2 ^ 29"
  "\<bar>float32_0_05 - 5 / 100\<bar> < 1 / 2 ^ 29"
  "(2::nat) ^ 23 \<le> 10737418 \<and> (10737418::nat) < 2 ^ 24"
  "(2::nat) ^ 23 \<le> 16106127 \<and> (16106127::nat) < 2 ^ 24"
  "(2::nat) ^ 23 \<le> 13421773 \<and> (13421773::nat) < 2 ^ 24"
  by (simp_all add: float32_0_01_def float32_0_02_def float32_0_03_def float32_0_04_def
      float32_0_05_def)

text \<open>
  What the range loop can end with: it appends to the slice a list without duplicates
  of exactly the keys that were left, and every such list is possible.
\<close>

lemma range_loop_sound:
  "range_loop S acc out \<Longrightarrow> \<exists>ks. out = acc @ ks \<and> distinct ks \<and> set ks = S"
proof (induction rule: range_loop.induct)
  case (range_done keys)
  show ?case by simp
next
  case (range_step k remaining keys out)
  then obtain ks where ks: "out = (keys @ [k]) @ ks" "distinct ks" "set ks = remaining - {k}"
    by blast
  have "out = keys @ (k # ks)" using ks(1) by simp
  moreover have "distinct (k # ks)" using ks(2,3) by simp
  moreover have "set (k # ks) = remaining" using ks(3) range_step.hyps(1) by auto
  ultimately show ?case by blast
qed

lemma range_loop_complete:
  "distinct ks \<Longrightarrow> range_loop (set ks) acc (acc @ ks)"
proof (induction ks arbitrary: acc)
  case Nil
  show ?case by (simp add: range_done)
next
  case (Cons k ks)
  have rest: "set (k # ks) - {k} = set ks" using Cons.prems by auto
  have "range_loop (set ks) (acc @ [k]) ((acc @ [k]) @ ks)"
    using Cons.IH [of "acc @ [k]"] Cons.prems by simp
  then have "range_loop (set (k # ks) - {k}) (acc @ [k]) (acc @ k # ks)"
    using rest by simp
  then show ?case
    using range_step [of k "set (k # ks)" acc "acc @ k # ks"] by simp
qed

lemma range_loop_results:
  "{keys. range_loop S [] keys} = {keys. distinct keys \<and> set keys = S}"
  using range_loop_sound [of S "[]"] range_loop_complete [of _ "[]"] by auto

lemma range_loop_returns: "finite S \<Longrightarrow> \<exists>keys. distinct keys \<and> set keys = S"
  using finite_distinct_list [of S] by auto


section \<open>The key-value store\<close>

text \<open>
  Claim C8. For every key and every store, \<open>GetData\<close> first makes the failure draw: when
  the draw is below the failure rate it fails with the simulated (transient) error
  \<open>GetError\<close> naming the service; otherwise, when the key is absent, it fails with
  \<open>KeyNotFound\<close> naming the key; otherwise it returns the value stored under the key.
  It makes exactly one draw.
\<close>

theorem GetData_outcome:
  "fst (GetData key m w) =
     (if rand_src w (rand_pos w) < failureRate m then Inl (GetError (name m))
      else case data m key of None \<Rightarrow> Inl (KeyNotFound key) | Some val \<Rightarrow> Inr val) \<and>
   rand_pos (snd (snd (GetData key m w))) = Suc (rand_pos w)"
  by (simp add: GetData_def shouldFail_eq Let_def split: option.split)

text \<open>
  Claim C9. \<open>Connect\<close>, \<open>Ping\<close>, \<open>GetData\<close> and \<open>ListKeys\<close> leave the store as it is, for
  every state, input and draw; \<open>PutData\<close> is the one operation that changes it, and only
  when its draw does not fail.
\<close>

theorem only_PutData_mutates:
  "data (fst (snd (Connect m w))) = data m \<and>
   data (fst (snd (Ping m w))) = data m \<and>
   data (fst (snd (GetData key m w))) = data m \<and>
   data (fst (snd (ListKeys m w))) = data m \<and>
   data (fst (snd (PutData key v m w))) =
     (if rand_src w (rand_pos w) < failureRate m then data m else (data m)(key \<mapsto> v))"
  by (simp add: Connect_def Ping_def GetData_def ListKeys_def PutData_def shouldFail_eq Let_def
      split: option.split)

text \<open>
  Claim C10. When \<open>PutData\<close> returns an error, the error is the simulated (transient)
  \<open>PutError\<close> and the service, its store included, is exactly as before: nothing was
  inserted or overwritten.
\<close>

theorem PutData_error_keeps_store:
  "fst (PutData key v m w) = Some e \<Longrightarrow>
     e = PutError (name m) \<and>
     fst (snd (PutData key v m w)) = m \<and>
     data (fst (snd (PutData key v m w))) = data m"
  by (auto simp add: PutData_def shouldFail_eq Let_def split: if_splits)

theorem PutData_error_keeps_store_witness:
  "fst (PutData ''user:1'' ''bob'' (one_entry 1) half_draws) = Some (PutError ''Database'') \<and>
   data (fst (snd (PutData ''user:1'' ''bob'' (one_entry 1) half_draws))) ''user:1'' = Some ''alice''"
  using PutData_error_keeps_store
    [of "''user:1''" "''bob''" "one_entry 1" half_draws "PutError ''Database''"]
  by (simp add: PutData_def shouldFail_eq Let_def one_entry_def half_draws_def)

text \<open>
  Claim C5. On a service whose failure rate is 0, \<open>PutData k v\<close> succeeds and the
  \<open>GetData k\<close> that follows it succeeds and returns exactly \<open>v\<close>.
\<close>

theorem PutData_then_GetData:
  assumes "failureRate m = 0" and "float32_range w"
  shows "fst (PutData key v m w) = None \<and>
         fst (GetData key (fst (snd (PutData key v m w))) (snd (snd (PutData key v m w)))) = Inr v"
  using assms
  by (simp add: PutData_def GetData_def shouldFail_eq draw_not_negative Let_def)

theorem PutData_then_GetData_witness:
  "failureRate (one_entry 0) = 0 \<and> float32_range half_draws \<and>
   fst (PutData ''user:1'' ''bob'' (one_entry 0) half_draws) = None \<and>
   fst (GetData ''user:1''
          (fst (snd (PutData ''user:1'' ''bob'' (one_entry 0) half_draws)))
          (snd (snd (PutData ''user:1'' ''bob'' (one_entry 0) half_draws)))) = Inr ''bob''"
  using PutData_then_GetData [of "one_entry 0" half_draws "''user:1''" "''bob''"]
    float32_range_half_draws
  by (simp add: one_entry_def)


section \<open>Failure injection at the rates 0 and 1\<close>

lemma run_ops_never_hit:
  assumes "simulateFailure p \<longrightarrow> test_failureRate m = 0 \<and> float32_range (rt p)"
  shows "run_ops m i ops t p =
     (False,
      t\<lparr>tlog := tlog t @ (if verbose p then completed_lines (length (operations m)) i ops else [])\<rparr>,
      p\<lparr>rt := (rt p)\<lparr>rand_pos := rand_pos (rt p) + (if simulateFailure p then length ops else 0),
                      clock := clock (rt p) +
                        int (length ops) * max 0 (duration m sdiv int (length (operations m)))\<rparr>\<rparr>)"
  using assms
proof (induction ops arbitrary: i t p)
  case Nil
  then show ?case by simp
next
  case (Cons opn ops)
  let ?d = "duration m sdiv int (length (operations m))"
  let ?t1 = "if verbose p then Logf (StepBegin (i + 1) (length (operations m)) opn) t else t"
  let ?t2 = "if verbose p then Logf (StepCompleted opn) ?t1 else ?t1"
  let ?w = "if simulateFailure p then (Sleep ?d (rt p))\<lparr>rand_pos := Suc (rand_pos (rt p))\<rparr>
            else Sleep ?d (rt p)"
  let ?p2 = "p\<lparr>rt := ?w\<rparr>"
  have no_hit: "simulateFailure p \<Longrightarrow> \<not> rand_src (rt p) (rand_pos (rt p)) < test_failureRate m"
    using Cons.prems by (simp add: draw_not_negative)
  have step: "run_ops m i (opn # ops) t p = run_ops m (i + 1) ops ?t2 ?p2"
    using no_hit by (simp add: Float32_def Let_def)
  have pre: "simulateFailure ?p2 \<longrightarrow> test_failureRate m = 0 \<and> float32_range (rt ?p2)"
    using Cons.prems by (simp add: float32_range_def)
  show ?case
    unfolding step Cons.IH [OF pre]
    by (simp add: Sleep_max Logf_def algebra_simps)
qed

lemma Run_passes:
  assumes "simulateFailure p" and "test_failureRate s = 0" and "float32_range (rt p)"
  shows "Run s t p =
     (t\<lparr>tlog := tlog t @ Starting (test_name s) #
          (if verbose p then completed_lines (length (operations s)) 0 (operations s) else []) @
          [TestPassed (test_name s)]\<rparr>,
      p\<lparr>rt := (rt p)\<lparr>rand_pos := rand_pos (rt p) + length (operations s),
                      clock := clock (rt p) +
                        int (length (operations s)) *
                          max 0 (duration s sdiv int (length (operations s)))\<rparr>\<rparr>)"
proof -
  let ?t0 = "Logf (Starting (test_name s)) t"
  have pre: "simulateFailure p \<longrightarrow> test_failureRate s = 0 \<and> float32_range (rt p)"
    using assms by simp
  show ?thesis
    unfolding Run_def Let_def run_ops_never_hit [OF pre, of 0 "operations s" ?t0]
    using assms(1) by (simp add: Logf_def)
qed

lemma Run_first_step_fails:
  assumes "simulateFailure p" and "test_failureRate s = 1" and "float32_range (rt p)"
    and "operations s = opn # ops"
  shows "Run s t p =
     (t\<lparr>tlog := tlog t @ Starting (test_name s) #
              (if verbose p then [StepBegin 1 (length (operations s)) opn] else []) @ [StepFailed opn],
        failed := True\<rparr>,
      p\<lparr>rt := (Sleep (duration s sdiv int (length (operations s))) (rt p))
                \<lparr>rand_pos := Suc (rand_pos (rt p))\<rparr>\<rparr>)"
  using assms
  by (simp add: Run_def Float32_def draw_below_one Let_def Logf_def Errorf_def)

lemma services_fail:
  assumes "failureRate m = 1" and "float32_range w"
  shows "fst (Connect m w) = Some (ConnectError (name m))"
    and "fst (Ping m w) = Some (PingError (name m))"
    and "fst (GetData key m w) = Inl (GetError (name m))"
    and "fst (PutData key v m w) = Some (PutError (name m))"
    and "fst (ListKeys m w) = Inl (ListError (name m))"
  using assms
  by (simp_all add: Connect_def Ping_def GetData_def PutData_def ListKeys_def shouldFail_eq
      draw_below_one Let_def)

lemma services_succeed:
  assumes "failureRate m = 0" and "float32_range w"
  shows "fst (Connect m w) = None"
    and "fst (Ping m w) = None"
    and "fst (GetData key m w) = (case data m key of None \<Rightarrow> Inl (KeyNotFound key) | Some val \<Rightarrow> Inr val)"
    and "fst (PutData key v m w) = None"
    and "fst (ListKeys m w) = Inr {keys. distinct keys \<and> set keys = dom (data m)}"
  using assms
  by (simp_all add: Connect_def Ping_def GetData_def PutData_def ListKeys_def shouldFail_eq
      draw_not_negative Let_def range_loop_results split: option.split)


text \<open>
  Claim C4. With failure rate 0 (and failure simulation enabled for the scenario) the
  simulated-failure branch is never taken: every service operation succeeds, \<open>GetData\<close>
  with the stored value when the key is present (a missing key is the one error left),
  and every scenario run completes all its steps, one draw for each, logs its pass line
  and does not mark the test as failed.
\<close>

theorem zero_rate_never_fails:
  assumes "failureRate m = 0" and "float32_range w"
    and "simulateFailure p" and "test_failureRate s = 0" and "float32_range (rt p)"
  shows "fst (Connect m w) = None \<and>
         fst (Ping m w) = None \<and>
         fst (GetData key m w) =
           (case data m key of None \<Rightarrow> Inl (KeyNotFound key) | Some val \<Rightarrow> Inr val) \<and>
         fst (PutData key v m w) = None \<and>
         fst (ListKeys m w) = Inr {keys. distinct keys \<and> set keys = dom (data m)} \<and>
         (finite (dom (data m)) \<longrightarrow> {keys. distinct keys \<and> set keys = dom (data m)} \<noteq> {}) \<and>
         tlog (fst (Run s t p)) =
           tlog t @ Starting (test_name s) #
             (if verbose p then completed_lines (length (operations s)) 0 (operations s) else []) @
             [TestPassed (test_name s)] \<and>
         failed (fst (Run s t p)) = failed t \<and>
         rand_pos (rt (snd (Run s t p))) = rand_pos (rt p) + length (operations s)"
  using services_succeed [OF assms(1,2)] Run_passes [OF assms(3,4,5)]
    range_loop_returns [of "dom (data m)"]
  by simp

theorem zero_rate_never_fails_witness:
  "failureRate (one_entry 0) = 0 \<and> float32_range half_draws \<and>
   simulateFailure (test_proc True True) \<and> test_failureRate (upload_scenario 0) = 0 \<and>
   float32_range (rt (test_proc True True)) \<and>
   fst (Connect (one_entry 0) half_draws) = None \<and>
   fst (Ping (one_entry 0) half_draws) = None \<and>
   fst (GetData ''user:1'' (one_entry 0) half_draws) = Inr ''alice'' \<and>
   fst (PutData ''user:1'' ''bob'' (one_entry 0) half_draws) = None \<and>
   fst (ListKeys (one_entry 0) half_draws) = Inr {keys. distinct keys \<and> set keys = {''user:1''}} \<and>
   [''user:1''] \<in> {keys. distinct keys \<and> set keys = {''user:1''}} \<and>
   tlog (fst (Run (upload_scenario 0) (new_T ''Upload'') (test_proc True True))) =
     [Starting ''Storage Upload'',
      StepBegin 1 5 ''Connecting to storage service'',
      StepCompleted ''Connecting to storage service'',
      StepBegin 2 5 ''Generating test file'',
      StepCompleted ''Generating test file'',
      StepBegin 3 5 ''Uploading file'',
      StepCompleted ''Uploading file'',
      StepBegin 4 5 ''Verifying upload'',
      StepCompleted ''Verifying upload'',
      StepBegin 5 5 ''Checking file integrity'',
      StepCompleted ''Checking file integrity'',
      TestPassed ''Storage Upload''] \<and>
   \<not> failed (fst (Run (upload_scenario 0) (new_T ''Upload'') (test_proc True True))) \<and>
   rand_pos (rt (snd (Run (upload_scenario 0) (new_T ''Upload'') (test_proc True True)))) = 5"
  using zero_rate_never_fails
    [where m = "one_entry 0" and w = half_draws and p = "test_proc True True"
       and s = "upload_scenario 0" and key = "''user:1''" and v = "''bob''"
       and t = "new_T ''Upload''"]
    float32_range_half_draws
  by (simp add: one_entry_def test_proc_def upload_scenario_def NewMockIntegrationTest_def
      new_T_def half_draws_def)

text \<open>
  A scenario without steps has no first step: its loop body never runs, it makes no draw
  and logs its pass line, at any failure rate. No scenario of the suite is one: the
  constructor sets eight steps and every test function assigns three to five.
\<close>

lemma Run_without_steps:
  "operations s = [] \<Longrightarrow>
     Run s t p = (t\<lparr>tlog := tlog t @ [Starting (test_name s), TestPassed (test_name s)]\<rparr>, p)"
  by (simp add: Run_def Logf_def)

text \<open>
  Claim C3. With failure rate 1 every service operation fails with its simulated error,
  and with failure simulation enabled every scenario fails at its first step \<open>opn\<close>:
  after the start line (and, in verbose mode, the first step's begin line) it logs the
  failure of the first step, marks the test as failed and has made one draw, which is
  below the threshold 1.
\<close>

theorem full_rate_always_fails:
  assumes "failureRate m = 1" and "float32_range w"
    and "simulateFailure p" and "test_failureRate s = 1" and "float32_range (rt p)"
    and "operations s = opn # ops"
  shows "fst (Connect m w) = Some (ConnectError (name m)) \<and>
         fst (Ping m w) = Some (PingError (name m)) \<and>
         fst (GetData key m w) = Inl (GetError (name m)) \<and>
         fst (PutData key v m w) = Some (PutError (name m)) \<and>
         fst (ListKeys m w) = Inl (ListError (name m)) \<and>
         tlog (fst (Run s t p)) =
           tlog t @ Starting (test_name s) #
             (if verbose p then [StepBegin 1 (length (operations s)) opn] else []) @
             [StepFailed opn] \<and>
         failed (fst (Run s t p)) \<and>
         rand_pos (rt (snd (Run s t p))) = Suc (rand_pos (rt p))"
  using services_fail [OF assms(1,2)] Run_first_step_fails [OF assms(3,4,5,6)]
  by simp

theorem full_rate_always_fails_witness:
  "failureRate (one_entry 1) = 1 \<and> float32_range half_draws \<and>
   simulateFailure (test_proc True True) \<and> test_failureRate (upload_scenario 1) = 1 \<and>
   float32_range (rt (test_proc True True)) \<and>
   operations (upload_scenario 1) =
     ''Connecting to storage service'' #
     [''Generating test file'', ''Uploading file'', ''Verifying upload'',
      ''Checking file integrity''] \<and>
   fst (Connect (one_entry 1) half_draws) = Some (ConnectError ''Database'') \<and>
   fst (Ping (one_entry 1) half_draws) = Some (PingError ''Database'') \<and>
   fst (GetData ''user:1'' (one_entry 1) half_draws) = Inl (GetError ''Database'') \<and>
   fst (PutData ''user:1'' ''bob'' (one_entry 1) half_draws) = Some (PutError ''Database'') \<and>
   fst (ListKeys (one_entry 1) half_draws) = Inl (ListError ''Database'') \<and>
   tlog (fst (Run (upload_scenario 1) (new_T ''Upload'') (test_proc True True))) =
     [Starting ''Storage Upload'',
      StepBegin 1 5 ''Connecting to storage service'',
      StepFailed ''Connecting to storage service''] \<and>
   failed (fst (Run (upload_scenario 1) (new_T ''Upload'') (test_proc True True))) \<and>
   rand_pos (rt (snd (Run (upload_scenario 1) (new_T ''Upload'') (test_proc True True)))) = 1"
  using full_rate_always_fails
    [where m = "one_entry 1" and w = half_draws and p = "test_proc True True"
       and s = "upload_scenario 1" and opn = "''Connecting to storage service''"
       and ops = "[''Generating test file'', ''Uploading file'', ''Verifying upload'',
                   ''Checking file integrity'']"
       and key = "''user:1''" and v = "''bob''"
       and t = "new_T ''Upload''"]
    float32_range_half_draws
  by (simp add: one_entry_def test_proc_def upload_scenario_def NewMockIntegrationTest_def
      new_T_def half_draws_def)


section \<open>Listing the keys\<close>

text \<open>
  Claim C6. On a freshly constructed service with failure rate 0, after \<open>PutData k1 v1\<close>
  and \<open>PutData k2 v2\<close> (both succeed) the store's keys are exactly \<open>{k1, k2}\<close>, and
  \<open>ListKeys\<close> succeeds: the slices it can return are exactly the lists without
  duplicates whose elements are \<open>k1\<close> and \<open>k2\<close>, in any order, and there is such a list.
\<close>

theorem ListKeys_after_two_puts:
  assumes "float32_range w"
    and "PutData k1 v1 (NewMockService n d 0) w = (e1, m1, w1)"
    and "PutData k2 v2 m1 w1 = (e2, m2, w2)"
  shows "e1 = None \<and> e2 = None \<and> dom (data m2) = {k1, k2} \<and>
         fst (ListKeys m2 w2) = Inr {keys. distinct keys \<and> set keys = {k1, k2}} \<and>
         remdups [k1, k2] \<in> {keys. distinct keys \<and> set keys = {k1, k2}}"
proof -
  have r1: "float32_range w1" and m1: "m1 = (NewMockService n d 0)\<lparr>data := [k1 \<mapsto> v1]\<rparr>"
    and e1: "e1 = None"
    using assms(1,2)
    by (auto simp add: PutData_def shouldFail_eq draw_not_negative Let_def NewMockService_def
        float32_range_def)
  have r2: "float32_range w2" and m2: "m2 = m1\<lparr>data := (data m1)(k2 \<mapsto> v2)\<rparr>"
    and e2: "e2 = None"
    using assms(3) r1 m1
    by (auto simp add: PutData_def shouldFail_eq draw_not_negative Let_def NewMockService_def
        float32_range_def)
  have d: "dom (data m2) = {k1, k2}"
    using m1 m2 by auto
  have z: "failureRate m2 = 0"
    using m1 m2 by (simp add: NewMockService_def)
  have l: "fst (ListKeys m2 w2) = Inr {keys. range_loop (dom (data m2)) [] keys}"
    using z r2 by (simp add: ListKeys_def shouldFail_eq draw_not_negative Let_def)
  have ex: "remdups [k1, k2] \<in> {keys. distinct keys \<and> set keys = {k1, k2}}"
    by auto
  show ?thesis
    using e1 e2 d l ex by (simp add: range_loop_results)
qed

theorem ListKeys_after_two_puts_witness:
  "float32_range half_draws \<and>
   PutData ''a'' ''1'' (NewMockService ''S3-like Storage'' 100 0) half_draws =
     (None,
      \<lparr>name = ''S3-like Storage'', responseTime = 100, failureRate = 0, data = [''a'' \<mapsto> ''1'']\<rparr>,
      half_draws\<lparr>rand_pos := 1, clock := 100\<rparr>) \<and>
   PutData ''b'' ''2''
     \<lparr>name = ''S3-like Storage'', responseTime = 100, failureRate = 0, data = [''a'' \<mapsto> ''1'']\<rparr>
     (half_draws\<lparr>rand_pos := 1, clock := 100\<rparr>) =
     (None,
      \<lparr>name = ''S3-like Storage'', responseTime = 100, failureRate = 0,
        data = [''a'' \<mapsto> ''1'', ''b'' \<mapsto> ''2'']\<rparr>,
      half_draws\<lparr>rand_pos := 2, clock := 200\<rparr>) \<and>
   fst (ListKeys
          \<lparr>name = ''S3-like Storage'', responseTime = 100, failureRate = 0,
            data = [''a'' \<mapsto> ''1'', ''b'' \<mapsto> ''2'']\<rparr>
          (half_draws\<lparr>rand_pos := 2, clock := 200\<rparr>)) =
     Inr {keys. distinct keys \<and> set keys = {''a'', ''b''}} \<and>
   [''a'', ''b''] \<in> {keys. distinct keys \<and> set keys = {''a'', ''b''}} \<and>
   [''b'', ''a''] \<in> {keys. distinct keys \<and> set keys = {''a'', ''b''}} \<and>
   [''a'', ''b'', ''a''] \<notin> {keys. distinct keys \<and> set keys = {''a'', ''b''}} \<and>
   [''a''] \<notin> {keys. distinct keys \<and> set keys = {''a'', ''b''}}"
proof -
  have w: "float32_range half_draws"
    by (fact float32_range_half_draws)
  have p1: "PutData ''a'' ''1'' (NewMockService ''S3-like Storage'' 100 0) half_draws =
     (None,
      \<lparr>name = ''S3-like Storage'', responseTime = 100, failureRate = 0, data = [''a'' \<mapsto> ''1'']\<rparr>,
      half_draws\<lparr>rand_pos := 1, clock := 100\<rparr>)"
    by (simp add: PutData_def shouldFail_eq NewMockService_def half_draws_def Sleep_def Let_def)
  have p2: "PutData ''b'' ''2''
     \<lparr>name = ''S3-like Storage'', responseTime = 100, failureRate = 0, data = [''a'' \<mapsto> ''1'']\<rparr>
     (half_draws\<lparr>rand_pos := 1, clock := 100\<rparr>) =
     (None,
      \<lparr>name = ''S3-like Storage'', responseTime = 100, failureRate = 0,
        data = [''a'' \<mapsto> ''1'', ''b'' \<mapsto> ''2'']\<rparr>,
      half_draws\<lparr>rand_pos := 2, clock := 200\<rparr>)"
    by (simp add: PutData_def shouldFail_eq half_draws_def Sleep_def Let_def)
  have members:
    "[''a'', ''b''] \<in> {keys. distinct keys \<and> set keys = {''a'', ''b''}}"
    "[''b'', ''a''] \<in> {keys. distinct keys \<and> set keys = {''a'', ''b''}}"
    "[''a'', ''b'', ''a''] \<notin> {keys. distinct keys \<and> set keys = {''a'', ''b''}}"
    "[''a''] \<notin> {keys. distinct keys \<and> set keys = {''a'', ''b''}}"
    by auto
  show ?thesis
    using ListKeys_after_two_puts [OF w p1 p2] w p1 p2 members
    by simp
qed


section \<open>Connecting\<close>

text \<open>
  Claim C2: connecting is attempted up to three times before the terminal failure, as
  \<^verbatim>\<open>docs/RETRY_LOGIC.md\<close> says of \<^verbatim>\<open>Connect\<close>. The code does not do so. \<^verbatim>\<open>Connect\<close>
  makes one attempt: it sleeps once, draws once, and returns the connection error as
  soon as that one draw is below the failure rate. At failure rate 1 it has failed after
  a single draw.
\<close>

theorem Connect_single_attempt:
  "fst (Connect m w) =
     (if rand_src w (rand_pos w) < failureRate m then Some (ConnectError (name m)) else None) \<and>
   rand_pos (snd (snd (Connect m w))) = Suc (rand_pos w) \<and>
   clock (snd (snd (Connect m w))) = clock w + max 0 (responseTime m) \<and>
   fst (Connect (one_entry 1) half_draws) = Some (ConnectError ''Database'') \<and>
   rand_pos (snd (snd (Connect (one_entry 1) half_draws))) = 1"
  by (simp add: Connect_def shouldFail_eq Let_def Printf_def Sleep_max one_entry_def
      half_draws_def)


section \<open>The service-type labels\<close>

lemma run_subtests_tlog: "tlog (fst (run_subtests tests t p)) = tlog t"
  by (induction tests t p rule: run_subtests.induct) (simp_all add: t_Run_def case_prod_beta)

lemma Getenv_unset: "env k = None \<Longrightarrow> Getenv env k = []"
  by (simp add: Getenv_def)

text \<open>
  Claim C7, as amended. When \<^verbatim>\<open>STORAGE_TYPE\<close>, \<^verbatim>\<open>DB_TYPE\<close> and \<^verbatim>\<open>API_TYPE\<close> are not set,
  \<^verbatim>\<open>main\<close> announces each of its three services with the label \<^verbatim>\<open>"mock"\<close>, and the
  integration tests log the labels \<^verbatim>\<open>"mock-s3"\<close>, \<^verbatim>\<open>"mock-postgres"\<close> and
  \<^verbatim>\<open>"mock-rest"\<close> for the storage, database and API categories.
\<close>

theorem default_labels:
  assumes "env ''STORAGE_TYPE'' = None" and "env ''DB_TYPE'' = None" and "env ''API_TYPE'' = None"
    and "environ p = env" and "runStorageTests p" and "runDBTests p" and "runAPITests p"
  shows "stdout (snd (main_init env w)) =
           stdout w @ [Initializing ''S3-like Storage'' ''mock'',
                       Initializing ''Database'' ''mock'',
                       Initializing ''External API'' ''mock''] \<and>
         tlog (fst (TestStorageIntegration t p)) = tlog t @ [RunningStorage ''mock-s3''] \<and>
         tlog (fst (TestDatabaseIntegration t p)) = tlog t @ [RunningDatabase ''mock-postgres''] \<and>
         tlog (fst (TestAPIIntegration t p)) = tlog t @ [RunningAPI ''mock-rest'']"
  using assms
  by (simp add: main_init_def LoadServiceConfig_def Getenv_unset Printf_def Let_def
      TestStorageIntegration_def TestDatabaseIntegration_def TestAPIIntegration_def
      run_subtests_tlog Logf_def del: run_subtests.simps)

theorem default_labels_witness:
  "Map.empty ''STORAGE_TYPE'' = (None :: string option) \<and>
   environ (test_proc False False\<lparr>runDBTests := True, runAPITests := True\<rparr>) = Map.empty \<and>
   stdout (snd (main_init Map.empty half_draws)) =
     [Initializing ''S3-like Storage'' ''mock'',
      Initializing ''Database'' ''mock'',
      Initializing ''External API'' ''mock''] \<and>
   tlog (fst (TestStorageIntegration (new_T ''TestStorageIntegration'')
          (test_proc False False\<lparr>runDBTests := True, runAPITests := True\<rparr>))) =
     [RunningStorage ''mock-s3''] \<and>
   tlog (fst (TestDatabaseIntegration (new_T ''TestDatabaseIntegration'')
          (test_proc False False\<lparr>runDBTests := True, runAPITests := True\<rparr>))) =
     [RunningDatabase ''mock-postgres''] \<and>
   tlog (fst (TestAPIIntegration (new_T ''TestAPIIntegration'')
          (test_proc False False\<lparr>runDBTests := True, runAPITests := True\<rparr>))) =
     [RunningAPI ''mock-rest'']"
  using default_labels
    [where env = Map.empty and w = half_draws
       and p = "test_proc False False\<lparr>runDBTests := True, runAPITests := True\<rparr>"]
  by (simp add: test_proc_def new_T_def half_draws_def)

text \<open>
  The claim as stated, \<^verbatim>\<open>"mock"\<close> for each category, fails in the storage tests: with
  \<^verbatim>\<open>STORAGE_TYPE\<close> not set the label they log is \<^verbatim>\<open>"mock-s3"\<close>.
\<close>

theorem storage_label_is_not_mock:
  "environ (test_proc False False) ''STORAGE_TYPE'' = None \<and>
   tlog (fst (TestStorageIntegration (new_T ''TestStorageIntegration'') (test_proc False False))) =
     [RunningStorage ''mock-s3''] \<and>
   ''mock-s3'' \<noteq> ''mock''"
  by (simp add: TestStorageIntegration_def Getenv_def Let_def run_subtests_tlog Logf_def
      test_proc_def new_T_def del: run_subtests.simps)



section \<open>Which scenarios a run executes\<close>

lemma started_in_Logf [simp]: "started_in (Logf l t) = started_in t @ started_line l"
  by (simp add: started_in_def Logf_def)

lemma started_in_Errorf [simp]: "started_in (Errorf l t) = started_in t @ started_line l"
  by (simp add: started_in_def Errorf_def Logf_def)

lemma started_in_Skip [simp]: "started_in (Skip msg t) = started_in t"
  by (simp add: started_in_def Skip_def Logf_def)

lemma started_in_new_T [simp]: "started_in (new_T n) = []"
  by (simp add: started_in_def new_T_def)

lemma started_in_failed_update [simp]: "started_in (t\<lparr>failed := b\<rparr>) = started_in t"
  by (simp add: started_in_def)

lemma run_ops_frame:
  "started_in (fst (snd (run_ops m i ops t p))) = started_in t \<and>
   runStorageTests (snd (snd (run_ops m i ops t p))) = runStorageTests p \<and>
   runDBTests (snd (snd (run_ops m i ops t p))) = runDBTests p \<and>
   runAPITests (snd (snd (run_ops m i ops t p))) = runAPITests p \<and>
   environ (snd (snd (run_ops m i ops t p))) = environ p \<and>
   finished (snd (snd (run_ops m i ops t p))) = finished p"
  by (induction ops arbitrary: i t p) (simp_all add: Let_def Float32_def split: prod.split)

lemma Run_frame:
  "started_in (fst (Run m t p)) = started_in t @ [test_name m] \<and>
   runStorageTests (snd (Run m t p)) = runStorageTests p \<and>
   runDBTests (snd (Run m t p)) = runDBTests p \<and>
   runAPITests (snd (Run m t p)) = runAPITests p \<and>
   environ (snd (Run m t p)) = environ p \<and>
   finished (snd (Run m t p)) = finished p"
  using run_ops_frame [of m 0 "operations m" "Logf (Starting (test_name m)) t" p]
  by (simp add: Run_def Let_def case_prod_beta)


lemma starts_Run: "starts (Run m) (test_name m)"
  unfolding starts_def using Run_frame by blast

lemma t_Run_frame:
  assumes "starts f nm"
  shows "started_in (fst (t_Run n f t p)) = started_in t \<and>
         started (snd (t_Run n f t p)) = started p @ [nm] \<and>
         runStorageTests (snd (t_Run n f t p)) = runStorageTests p \<and>
         runDBTests (snd (t_Run n f t p)) = runDBTests p \<and>
         runAPITests (snd (t_Run n f t p)) = runAPITests p \<and>
         environ (snd (t_Run n f t p)) = environ p"
  using assms by (simp add: starts_def t_Run_def case_prod_beta started_def)

lemma run_subtests_frame:
  assumes "list_all2 (\<lambda>nf nm. starts (snd nf) nm) tests nms"
  shows "started_in (fst (run_subtests tests t p)) = started_in t \<and>
         started (snd (run_subtests tests t p)) = started p @ nms \<and>
         runStorageTests (snd (run_subtests tests t p)) = runStorageTests p \<and>
         runDBTests (snd (run_subtests tests t p)) = runDBTests p \<and>
         runAPITests (snd (run_subtests tests t p)) = runAPITests p \<and>
         environ (snd (run_subtests tests t p)) = environ p"
  using assms
proof (induction tests nms arbitrary: t p rule: list_all2_induct)
  case Nil
  show ?case by simp
next
  case (Cons nf tests nm nms)
  obtain n f where nf: "nf = (n, f)" by (cases nf)
  from Cons.hyps(1) nf have s: "starts f nm" by simp
  show ?case
    using t_Run_frame [OF s, of n t p] Cons.IH [of "fst (t_Run n f t p)" "snd (t_Run n f t p)"]
    by (simp add: nf case_prod_beta)
qed

lemma starts_scenarios:
  "starts testStorageUpload ''Storage Upload''"
  "starts testStorageDownload ''Storage Download''"
  "starts testStorageList ''Storage List''"
  "starts testStorageDelete ''Storage Delete''"
  "starts testStorageMetadata ''Storage Metadata''"
  "starts testDBConnection ''Database Connection''"
  "starts testDBMigration ''Database Migration''"
  "starts testDBCRUD ''Database CRUD''"
  "starts testDBTransaction ''Database Transaction''"
  "starts testDBPerformance ''Database Performance''"
  "starts testAPIAuth ''API Authentication''"
  "starts testAPIGet ''API GET''"
  "starts testAPIPost ''API POST''"
  "starts testAPIPut ''API PUT''"
  "starts testAPIDelete ''API DELETE''"
  "starts testAPIRateLimit ''API Rate Limiting''"
  using starts_Run
  by (simp_all add: starts_def NewMockIntegrationTest_def
      testStorageUpload_def testStorageDownload_def testStorageList_def testStorageDelete_def testStorageMetadata_def testDBConnection_def testDBMigration_def testDBCRUD_def testDBTransaction_def testDBPerformance_def testAPIAuth_def testAPIGet_def testAPIPost_def testAPIPut_def testAPIDelete_def testAPIRateLimit_def)

lemma TestStorageIntegration_frame:
  "started_in (fst (TestStorageIntegration t p)) = started_in t \<and>
   started (snd (TestStorageIntegration t p)) =
     started p @ (if runStorageTests p then storage_names else []) \<and>
   runStorageTests (snd (TestStorageIntegration t p)) = runStorageTests p \<and>
   runDBTests (snd (TestStorageIntegration t p)) = runDBTests p \<and>
   runAPITests (snd (TestStorageIntegration t p)) = runAPITests p \<and>
   environ (snd (TestStorageIntegration t p)) = environ p"
proof (cases "runStorageTests p")
  case False
  then show ?thesis by (simp add: TestStorageIntegration_def)
next
  case True
  have tbl: "list_all2 (\<lambda>nf nm. starts (snd nf) nm)
     [(''Upload'', testStorageUpload),
      (''Download'', testStorageDownload),
      (''List'', testStorageList),
      (''Delete'', testStorageDelete),
      (''Metadata'', testStorageMetadata)] storage_names"
    by (simp add: storage_names_def starts_scenarios)
  show ?thesis
    using True run_subtests_frame [OF tbl]
    by (simp add: TestStorageIntegration_def Let_def)
qed

lemma TestDatabaseIntegration_frame:
  "started_in (fst (TestDatabaseIntegration t p)) = started_in t \<and>
   started (snd (TestDatabaseIntegration t p)) =
     started p @ (if runDBTests p then database_names else []) \<and>
   runStorageTests (snd (TestDatabaseIntegration t p)) = runStorageTests p \<and>
   runDBTests (snd (TestDatabaseIntegration t p)) = runDBTests p \<and>
   runAPITests (snd (TestDatabaseIntegration t p)) = runAPITests p \<and>
   environ (snd (TestDatabaseIntegration t p)) = environ p"
proof (cases "runDBTests p")
  case False
  then show ?thesis by (simp add: TestDatabaseIntegration_def)
next
  case True
  have tbl: "list_all2 (\<lambda>nf nm. starts (snd nf) nm)
     [(''Connection'', testDBConnection),
      (''Migration'', testDBMigration),
      (''CRUD'', testDBCRUD),
      (''Transaction'', testDBTransaction),
      (''Performance'', testDBPerformance)] database_names"
    by (simp add: database_names_def starts_scenarios)
  show ?thesis
    using True run_subtests_frame [OF tbl]
    by (simp add: TestDatabaseIntegration_def Let_def)
qed

lemma TestAPIIntegration_frame:
  "started_in (fst (TestAPIIntegration t p)) = started_in t \<and>
   started (snd (TestAPIIntegration t p)) =
     started p @ (if runAPITests p then api_names else []) \<and>
   runStorageTests (snd (TestAPIIntegration t p)) = runStorageTests p \<and>
   runDBTests (snd (TestAPIIntegration t p)) = runDBTests p \<and>
   runAPITests (snd (TestAPIIntegration t p)) = runAPITests p \<and>
   environ (snd (TestAPIIntegration t p)) = environ p"
proof (cases "runAPITests p")
  case False
  then show ?thesis by (simp add: TestAPIIntegration_def)
next
  case True
  have tbl: "list_all2 (\<lambda>nf nm. starts (snd nf) nm)
     [(''Authentication'', testAPIAuth),
      (''GET'', testAPIGet),
      (''POST'', testAPIPost),
      (''PUT'', testAPIPut),
      (''DELETE'', testAPIDelete),
      (''RateLimit'', testAPIRateLimit)] api_names"
    by (simp add: api_names_def starts_scenarios)
  show ?thesis
    using True run_subtests_frame [OF tbl]
    by (simp add: TestAPIIntegration_def Let_def)
qed

lemma TestIntegrationSuite_frame:
  "started_in (fst (TestIntegrationSuite t p)) = started_in t \<and>
   started (snd (TestIntegrationSuite t p)) = started p \<and>
   runStorageTests (snd (TestIntegrationSuite t p)) =
     (runStorageTests p \<or> \<not> runDBTests p \<and> \<not> runAPITests p) \<and>
   runDBTests (snd (TestIntegrationSuite t p)) =
     (runDBTests p \<or> \<not> runStorageTests p \<and> \<not> runAPITests p) \<and>
   runAPITests (snd (TestIntegrationSuite t p)) =
     (runAPITests p \<or> \<not> runStorageTests p \<and> \<not> runDBTests p) \<and>
   environ (snd (TestIntegrationSuite t p)) = environ p"
  by (auto simp add: TestIntegrationSuite_def Let_def started_def)

lemma started_finished_append:
  "started (p\<lparr>finished := finished p @ [t]\<rparr>) = started p @ started_in t"
  by (simp add: started_def)

text \<open>
  Claim C1: a run with none of the three category flags set executes the same scenarios
  as a run with all three set. The code does not do so. The fallback of
  \<^verbatim>\<open>TestIntegrationSuite\<close> (``Run all integration tests if no specific flags are set'')
  does set the three flags, but that test is declared last and runs after the three
  category tests have read them. With no flag set every category is skipped and no
  scenario is executed; with all three set the sixteen scenarios are executed; and
  after the run without flags all three flags are set.
\<close>

theorem fallback_after_categories:
  "started (go_test False False False fail v env w) = [] \<and>
   started (go_test True True True fail v env w) =
     [''Storage Upload'', ''Storage Download'', ''Storage List'', ''Storage Delete'',
      ''Storage Metadata'',
      ''Database Connection'', ''Database Migration'', ''Database CRUD'',
      ''Database Transaction'', ''Database Performance'',
      ''API Authentication'', ''API GET'', ''API POST'', ''API PUT'', ''API DELETE'',
      ''API Rate Limiting''] \<and>
   runStorageTests (go_test False False False fail v env w) \<and>
   runDBTests (go_test False False False fail v env w) \<and>
   runAPITests (go_test False False False fail v env w)"
  using TestStorageIntegration_frame TestDatabaseIntegration_frame TestAPIIntegration_frame
    TestIntegrationSuite_frame
  apply (simp add: go_test_def declared_tests_def case_prod_beta Let_def started_finished_append)
  apply (simp add: started_def storage_names_def database_names_def api_names_def)
  done

text \<open>
  Had \<^verbatim>\<open>TestIntegrationSuite\<close> run before the category tests, the fallback would do what
  its comment says: from no flag set, all sixteen scenarios are executed.
\<close>

lemma fallback_before_categories:
  "started (run_tests
     [(''TestIntegrationSuite'', TestIntegrationSuite),
      (''TestStorageIntegration'', TestStorageIntegration),
      (''TestDatabaseIntegration'', TestDatabaseIntegration),
      (''TestAPIIntegration'', TestAPIIntegration)]
     \<lparr>runStorageTests = False, runDBTests = False, runAPITests = False,
      simulateFailure = fail, verbose = v, environ = env, rt = w, finished = []\<rparr>) =
   storage_names @ database_names @ api_names"
  using TestStorageIntegration_frame TestDatabaseIntegration_frame TestAPIIntegration_frame
    TestIntegrationSuite_frame
  apply (simp add: case_prod_beta Let_def started_finished_append)
  apply (simp add: started_def)
  done

end
